theory Spec2Isabelle
  imports Main "HOL-Library.Word"
begin

section \<open>JavaScript values used by the stack\<close>

text \<open>
  A JavaScript string is a sequence of UTF-16 code units. The literals of the source are
  ASCII; \<open>str\<close> embeds such a literal.
\<close>

type_synonym jsstring = "16 word list"

definition str :: "string \<Rightarrow> jsstring" where
  "str s = map (\<lambda>c. of_nat (of_char c)) s"

text \<open>
  The values that reach \<open>Array.prototype.join\<close> in the stack: strings and arrays.
\<close>

datatype jsval = JStr jsstring | JArr "jsval list"

fun join_with :: "jsstring \<Rightarrow> jsstring list \<Rightarrow> jsstring" where
  "join_with sep [] = []"
| "join_with sep [x] = x"
| "join_with sep (x # y # ys) = x @ sep @ join_with sep (y # ys)"

text \<open>
  \<open>ToString\<close> of a string is the string; of an array it is \<open>Array.prototype.toString\<close>,
  which is \<open>join\<close> with the default separator.
\<close>

fun js_ToString :: "jsval \<Rightarrow> jsstring" where
  "js_ToString (JStr s) = s"
| "js_ToString (JArr xs) = join_with (str '','') (map js_ToString xs)"

text \<open>
  \<open>arr.join(sep)\<close>: an absent separator is the comma; the elements are converted with
  \<open>ToString\<close> and concatenated with the separator between them.
\<close>

definition Array_join :: "jsstring option \<Rightarrow> jsval list \<Rightarrow> jsstring" where
  "Array_join sep xs =
     join_with (case sep of None \<Rightarrow> str '','' | Some s \<Rightarrow> s) (map js_ToString xs)"

text \<open>
  \<open>new Array(a)\<close> with a single argument that is not a number builds the array whose
  only element is \<open>a\<close>. The stack always passes the array returned by \<open>map\<close>.
\<close>

definition new_Array :: "jsval \<Rightarrow> jsval list" where
  "new_Array a = [a]"

text \<open>
  \<open>s.replace(/[^a-zA-Z0-9_]/g, "_")\<close>: the pattern has no \<open>u\<close> flag, so it matches one
  code unit at a time; a code unit matches when it is in none of the ranges
  \<open>a-z\<close>, \<open>A-Z\<close>, \<open>0-9\<close> and is not \<open>_\<close>; every match is replaced by \<open>"_"\<close>.
\<close>

definition in_class :: "16 word \<Rightarrow> bool" where
  "in_class c \<longleftrightarrow>
     (0x61 \<le> c \<and> c \<le> 0x7A) \<or> (0x41 \<le> c \<and> c \<le> 0x5A) \<or> (0x30 \<le> c \<and> c \<le> 0x39) \<or> c = 0x5F"

definition replace_non_word :: "jsstring \<Rightarrow> jsstring" where
  "replace_non_word s = concat (map (\<lambda>c. if \<not> in_class c then str ''_'' else [c]) s)"

section \<open>The stack's input\<close>

datatype RdsEventId =
    DB_AUTOMATED_AURORA_SNAPSHOT_CREATED
  | DB_AUTOMATED_SNAPSHOT_CREATED
  | DB_MANUAL_SNAPSHOT_CREATED
  | DB_BACKUP_SNAPSHOT_FINISHED_COPY

fun RdsEventId_value :: "RdsEventId \<Rightarrow> jsstring" where
  "RdsEventId_value DB_AUTOMATED_AURORA_SNAPSHOT_CREATED = str ''RDS-EVENT-0169''"
| "RdsEventId_value DB_AUTOMATED_SNAPSHOT_CREATED = str ''RDS-EVENT-0091''"
| "RdsEventId_value DB_MANUAL_SNAPSHOT_CREATED = str ''RDS-EVENT-0042''"
| "RdsEventId_value DB_BACKUP_SNAPSHOT_FINISHED_COPY = str ''RDS-EVENT-0197''"

datatype RdsSnapshotType = DB_AUTOMATED_SNAPSHOT | DB_BACKUP_SNAPSHOT | DB_MANUAL_SNAPSHOT

fun RdsSnapshotType_value :: "RdsSnapshotType \<Rightarrow> jsstring" where
  "RdsSnapshotType_value DB_AUTOMATED_SNAPSHOT = str ''AUTOMATED''"
| "RdsSnapshotType_value DB_BACKUP_SNAPSHOT = str ''BACKUP''"
| "RdsSnapshotType_value DB_MANUAL_SNAPSHOT = str ''MANUAL''"

record RdsSnapshot =
  rdsEventId :: RdsEventId
  rdsSnapshotType :: RdsSnapshotType

text \<open>
  The properties of the stack. Those inherited from \<open>StackProps\<close> go to the
  constructor of the base class and reach no construct; they are left out.
\<close>

record RdsSnapshotExportPipelineStackProps =
  s3BucketName :: jsstring
  dbName :: jsstring
  rdsEvents :: "RdsSnapshot list"

section \<open>Constructs\<close>

text \<open>
  Identities that the toolkit resolves at deployment (\<open>role.roleArn\<close>, \<open>bucket.bucketArn\<close>,
  ...) are kept symbolic: \<open>Attr c p\<close> is property \<open>p\<close> of the construct with id \<open>c\<close>,
  \<open>Cat t s\<close> is the template literal that appends \<open>s\<close> to \<open>t\<close>.
\<close>

datatype Token =
    Lit jsstring
  | Attr string string
  | AccountRootPrincipal_arn
  | Cat Token jsstring

text \<open>
  A policy statement. A \<open>Principal\<close> is its \<open>AWS\<close> list (empty when the statement has
  none); an \<open>Action\<close> or \<open>Resource\<close> written as one string is the one-element list.
\<close>

record Statement =
  Principal :: "Token list"
  Action :: "jsstring list"
  Resource :: "Token list"
  Condition :: "(jsstring \<times> jsstring \<times> bool) option"
  Effect :: jsstring

record BucketProps =
  bucketName :: jsstring
  blockPublicAccess :: jsstring

record RoleProps =
  assumedBy :: jsstring
  description :: jsstring
  inlinePolicies :: "(jsstring \<times> Statement list) list"
  managedPolicies :: "jsstring list"

record KeyProps =
  keyAlias :: jsstring
  policy :: "Statement list"

record TopicProps =
  displayName :: jsstring

record CfnEventSubscriptionProps =
  snsTopicArn :: Token
  enabled :: bool
  eventCategories :: "jsstring list"
  sourceType :: jsstring

record FunctionProps =
  functionName :: jsstring
  runtime :: jsstring
  handler :: jsstring
  code :: jsstring
  environment :: "(jsstring \<times> Token) list"
  role :: string
  timeout :: nat
  events :: "string list"

record CfnCrawlerProps =
  name :: jsstring
  crawlerRole :: Token
  s3Targets :: "Token list"
  databaseName :: jsstring
  deleteBehavior :: jsstring

datatype Construct =
    Bucket BucketProps
  | Role RoleProps
  | Key KeyProps
  | Topic TopicProps
  | CfnEventSubscription CfnEventSubscriptionProps
  | Function FunctionProps
  | CfnCrawler CfnCrawlerProps

section \<open>The construct tree\<close>

text \<open>
  \<open>new C(this, id, props)\<close> adds a child to the stack under \<open>id\<close> and runs the
  toolkit's constructor of \<open>C\<close>. The toolkit throws when the stack already has a child
  with that id, and its constructors throw when they reject the properties they are
  given (the bucket checks its name, the key its alias, the function its name, for
  instance). The stack hands \<open>s3BucketName\<close> and \<open>dbName\<close> on as they come, so the
  constructor of the stack throws whenever one of the constructs it creates is rejected.

  The toolkit's checks are not part of the stack. They are the parameter \<open>accepts\<close>:
  \<open>accepts (id, c)\<close> holds when the toolkit constructs \<open>c\<close> under \<open>id\<close> without
  throwing. The tree is threaded through the constructor, and adding a child may fail.
\<close>

datatype error = DuplicateConstruct string | ValidationError string

type_synonym scope = "(string \<times> Construct) list"

definition add_construct ::
  "(string \<times> Construct \<Rightarrow> bool) \<Rightarrow> string \<times> Construct \<Rightarrow> scope \<Rightarrow> error + scope" where
  "add_construct accepts c sc =
     (if fst c \<in> set (map fst sc) then Inl (DuplicateConstruct (fst c))
      else if \<not> accepts c then Inl (ValidationError (fst c))
      else Inr (sc @ [c]))"

text \<open>An exception ends the constructor: the constructs after it are not created.\<close>

fun add_constructs ::
  "(string \<times> Construct \<Rightarrow> bool) \<Rightarrow> (string \<times> Construct) list \<Rightarrow> scope \<Rightarrow> error + scope" where
  "add_constructs accepts [] sc = Inr sc"
| "add_constructs accepts (c # cs) sc =
     (case add_construct accepts c sc of
        Inl e \<Rightarrow> Inl e
      | Inr sc' \<Rightarrow> add_constructs accepts cs sc')"

section \<open>The stack\<close>

definition bucket :: "RdsSnapshotExportPipelineStackProps \<Rightarrow> string \<times> Construct" where
  "bucket props =
     (''SnapshotExportBucket'',
      Bucket \<lparr>bucketName = s3BucketName props, blockPublicAccess = str ''BLOCK_ALL''\<rparr>)"

definition bucket_bucketArn :: Token where
  "bucket_bucketArn = Attr ''SnapshotExportBucket'' ''bucketArn''"

definition bucket_bucketName :: Token where
  "bucket_bucketName = Attr ''SnapshotExportBucket'' ''bucketName''"

definition snapshotExportTaskRole :: "string \<times> Construct" where
  "snapshotExportTaskRole =
     (''SnapshotExportTaskRole'',
      Role \<lparr>assumedBy = str ''export.rds.amazonaws.com'',
            description = str ''Role used by RDS to perform snapshot exports to S3'',
            inlinePolicies =
              [(str ''SnapshotExportTaskPolicy'',
                [\<lparr>Principal = [],
                  Action = [str ''s3:PutObject*'', str ''s3:ListBucket'', str ''s3:GetObject*'',
                            str ''s3:DeleteObject*'', str ''s3:GetBucketLocation''],
                  Resource = [bucket_bucketArn, Cat bucket_bucketArn (str ''/*'')],
                  Condition = None,
                  Effect = str ''Allow''\<rparr>])],
            managedPolicies = []\<rparr>)"

definition snapshotExportTaskRole_roleArn :: Token where
  "snapshotExportTaskRole_roleArn = Attr ''SnapshotExportTaskRole'' ''roleArn''"

definition lambdaExecutionRole :: "RdsSnapshotExportPipelineStackProps \<Rightarrow> string \<times> Construct" where
  "lambdaExecutionRole props =
     (''RdsSnapshotExporterLambdaExecutionRole'',
      Role \<lparr>assumedBy = str ''lambda.amazonaws.com'',
            description = str ''RdsSnapshotExportToS3 Lambda execution role for the '' @ [0x22]
                            @ dbName props @ [0x22] @ str '' database.'',
            inlinePolicies =
              [(str ''SnapshotExporterLambdaPolicy'',
                [\<lparr>Principal = [],
                  Action = [str ''rds:StartExportTask'', str ''rds:DescribeDBSnapshots''],
                  Resource = [Lit (str ''*'')],
                  Condition = None,
                  Effect = str ''Allow''\<rparr>,
                 \<lparr>Principal = [],
                  Action = [str ''iam:PassRole''],
                  Resource = [snapshotExportTaskRole_roleArn],
                  Condition = None,
                  Effect = str ''Allow''\<rparr>])],
            managedPolicies = [str ''service-role/AWSLambdaBasicExecutionRole'']\<rparr>)"

definition lambdaExecutionRole_roleArn :: Token where
  "lambdaExecutionRole_roleArn = Attr ''RdsSnapshotExporterLambdaExecutionRole'' ''roleArn''"

definition snapshotExportGlueCrawlerRole :: "string \<times> Construct" where
  "snapshotExportGlueCrawlerRole =
     (''SnapshotExportsGlueCrawlerRole'',
      Role \<lparr>assumedBy = str ''glue.amazonaws.com'',
            description = str ''Role used by RDS to perform snapshot exports to S3'',
            inlinePolicies =
              [(str ''SnapshotExportsGlueCrawlerPolicy'',
                [\<lparr>Principal = [],
                  Action = [str ''s3:GetObject'', str ''s3:PutObject''],
                  Resource = [Cat bucket_bucketArn (str ''/*'')],
                  Condition = None,
                  Effect = str ''Allow''\<rparr>])],
            managedPolicies = [str ''service-role/AWSGlueServiceRole'']\<rparr>)"

definition snapshotExportGlueCrawlerRole_roleArn :: Token where
  "snapshotExportGlueCrawlerRole_roleArn = Attr ''SnapshotExportsGlueCrawlerRole'' ''roleArn''"

definition snapshotExportEncryptionKey :: "RdsSnapshotExportPipelineStackProps \<Rightarrow> string \<times> Construct" where
  "snapshotExportEncryptionKey props =
     (''SnapshotExportEncryptionKey'',
      Key \<lparr>keyAlias = dbName props @ str ''-snapshot-exports'',
           policy =
             [\<lparr>Principal = [AccountRootPrincipal_arn],
               Action = [str ''kms:*''],
               Resource = [Lit (str ''*'')],
               Condition = None,
               Effect = str ''Allow''\<rparr>,
              \<lparr>Principal = [lambdaExecutionRole_roleArn, snapshotExportGlueCrawlerRole_roleArn],
               Action = [str ''kms:Encrypt'', str ''kms:Decrypt'', str ''kms:ReEncrypt*'',
                         str ''kms:GenerateDataKey*'', str ''kms:DescribeKey''],
               Resource = [Lit (str ''*'')],
               Condition = None,
               Effect = str ''Allow''\<rparr>,
              \<lparr>Principal = [lambdaExecutionRole_roleArn],
               Action = [str ''kms:CreateGrant'', str ''kms:ListGrants'', str ''kms:RevokeGrant''],
               Resource = [Lit (str ''*'')],
               Condition = Some (str ''Bool'', str ''kms:GrantIsForAWSResource'', True),
               Effect = str ''Allow''\<rparr>]\<rparr>)"

definition snapshotExportEncryptionKey_keyArn :: Token where
  "snapshotExportEncryptionKey_keyArn = Attr ''SnapshotExportEncryptionKey'' ''keyArn''"

definition snapshotEventTopic :: "string \<times> Construct" where
  "snapshotEventTopic =
     (''SnapshotEventTopic'', Topic \<lparr>displayName = str ''rds-snapshot-creation''\<rparr>)"

definition snapshotEventTopic_topicArn :: Token where
  "snapshotEventTopic_topicArn = Attr ''SnapshotEventTopic'' ''topicArn''"

text \<open>
  \<open>rdsEvents.find(p) ? a : b\<close>: \<open>find\<close> returns the first element that satisfies \<open>p\<close>, or
  \<open>undefined\<close>; an element is an object and therefore truthy.
\<close>

definition RdsSnapshotEventNotification :: "RdsSnapshotExportPipelineStackProps \<Rightarrow> (string \<times> Construct) list" where
  "RdsSnapshotEventNotification props =
     (case List.find (\<lambda>rdsEvent. rdsEventId rdsEvent = DB_AUTOMATED_AURORA_SNAPSHOT_CREATED)
             (rdsEvents props) of
        Some _ \<Rightarrow>
          [(''RdsSnapshotEventNotification'',
            CfnEventSubscription \<lparr>snsTopicArn = snapshotEventTopic_topicArn, enabled = True,
              eventCategories = [str ''backup''], sourceType = str ''db-cluster-snapshot''\<rparr>)]
      | None \<Rightarrow>
          [(''RdsSnapshotEventNotification'',
            CfnEventSubscription \<lparr>snsTopicArn = snapshotEventTopic_topicArn, enabled = True,
              eventCategories = [str ''creation''], sourceType = str ''db-snapshot''\<rparr>)])"

definition RdsBackupCopyEventNotification :: "RdsSnapshotExportPipelineStackProps \<Rightarrow> (string \<times> Construct) list" where
  "RdsBackupCopyEventNotification props =
     (case List.find (\<lambda>rdsEvent. rdsEventId rdsEvent = DB_BACKUP_SNAPSHOT_FINISHED_COPY)
             (rdsEvents props) of
        Some _ \<Rightarrow>
          [(''RdsBackupCopyEventNotification'',
            CfnEventSubscription \<lparr>snsTopicArn = snapshotEventTopic_topicArn, enabled = True,
              eventCategories = [str ''notification''], sourceType = str ''db-snapshot''\<rparr>)]
      | None \<Rightarrow> [])"

text \<open>The three lists that the environment serializes, one entry per element of \<open>rdsEvents\<close>.\<close>

definition RDS_EVENT_IDS_list :: "RdsSnapshotExportPipelineStackProps \<Rightarrow> jsstring list" where
  "RDS_EVENT_IDS_list props = map (\<lambda>e. RdsEventId_value (rdsEventId e)) (rdsEvents props)"

definition RDS_SNAPSHOT_TYPES_list :: "RdsSnapshotExportPipelineStackProps \<Rightarrow> jsstring list" where
  "RDS_SNAPSHOT_TYPES_list props =
     map (\<lambda>e. RdsSnapshotType_value (rdsSnapshotType e)) (rdsEvents props)"

definition DB_SNAPSHOT_TYPE :: "RdsSnapshot \<Rightarrow> jsstring" where
  "DB_SNAPSHOT_TYPE e =
     (if rdsEventId e = DB_AUTOMATED_AURORA_SNAPSHOT_CREATED
      then str ''cluster-snapshot'' else str ''snapshot'')"

definition DB_SNAPSHOT_TYPES_list :: "RdsSnapshotExportPipelineStackProps \<Rightarrow> jsstring list" where
  "DB_SNAPSHOT_TYPES_list props = map DB_SNAPSHOT_TYPE (rdsEvents props)"

text \<open>\<open>new Array(list).join()\<close>, as the environment writes it.\<close>

definition serialize :: "jsstring list \<Rightarrow> jsstring" where
  "serialize xs = Array_join None (new_Array (JArr (map JStr xs)))"

definition LambdaFunction :: "RdsSnapshotExportPipelineStackProps \<Rightarrow> string \<times> Construct" where
  "LambdaFunction props =
     (''LambdaFunction'',
      Function \<lparr>functionName = dbName props @ str ''-rds-snapshot-exporter'',
        runtime = str ''PYTHON_3_8'',
        handler = str ''main.handler'',
        code = str ''/../assets/exporter/'',
        environment =
          [(str ''RDS_EVENT_IDS'', Lit (serialize (RDS_EVENT_IDS_list props))),
           (str ''RDS_SNAPSHOT_TYPES'', Lit (serialize (RDS_SNAPSHOT_TYPES_list props))),
           (str ''DB_NAME'', Lit (dbName props)),
           (str ''LOG_LEVEL'', Lit (str ''INFO'')),
           (str ''SNAPSHOT_BUCKET_NAME'', bucket_bucketName),
           (str ''SNAPSHOT_TASK_ROLE'', snapshotExportTaskRole_roleArn),
           (str ''SNAPSHOT_TASK_KEY'', snapshotExportEncryptionKey_keyArn),
           (str ''DB_SNAPSHOT_TYPES'', Lit (serialize (DB_SNAPSHOT_TYPES_list props)))],
        role = ''RdsSnapshotExporterLambdaExecutionRole'',
        timeout = 30,
        events = [''SnapshotEventTopic'']\<rparr>)"

definition SnapshotExportCrawler :: "RdsSnapshotExportPipelineStackProps \<Rightarrow> string \<times> Construct" where
  "SnapshotExportCrawler props =
     (''SnapshotExportCrawler'',
      CfnCrawler \<lparr>name = dbName props @ str ''-rds-snapshot-crawler'',
        crawlerRole = snapshotExportGlueCrawlerRole_roleArn,
        s3Targets = [bucket_bucketName],
        databaseName = replace_non_word (dbName props),
        deleteBehavior = str ''DELETE_FROM_DATABASE''\<rparr>)"

text \<open>The constructs of the stack, in the order in which the constructor creates them.\<close>

definition constructs :: "RdsSnapshotExportPipelineStackProps \<Rightarrow> (string \<times> Construct) list" where
  "constructs props =
     [bucket props, snapshotExportTaskRole, lambdaExecutionRole props,
      snapshotExportGlueCrawlerRole, snapshotExportEncryptionKey props, snapshotEventTopic]
     @ RdsSnapshotEventNotification props
     @ RdsBackupCopyEventNotification props
     @ [LambdaFunction props, SnapshotExportCrawler props]"

text \<open>The constructor, under a toolkit with the checks \<open>accepts\<close>.\<close>

definition RdsSnapshotExportPipelineStack ::
  "(string \<times> Construct \<Rightarrow> bool) \<Rightarrow> RdsSnapshotExportPipelineStackProps \<Rightarrow> error + scope" where
  "RdsSnapshotExportPipelineStack accepts props = add_constructs accepts (constructs props) []"

section \<open>Reading a finished stack\<close>

text \<open>The event subscriptions of a construct tree, in the order of their creation.\<close>

fun subscription_of :: "string \<times> Construct \<Rightarrow> CfnEventSubscriptionProps list" where
  "subscription_of (i, CfnEventSubscription s) = [s]"
| "subscription_of (i, _) = []"

definition subscriptions :: "scope \<Rightarrow> CfnEventSubscriptionProps list" where
  "subscriptions sc = concat (map subscription_of sc)"

text \<open>
  The event subscriptions that the constructor creates for its input, or the error with
  which it stops.
\<close>

definition resolve_subscriptions ::
  "(string \<times> Construct \<Rightarrow> bool) \<Rightarrow> RdsSnapshotExportPipelineStackProps
     \<Rightarrow> error + CfnEventSubscriptionProps list" where
  "resolve_subscriptions accepts props =
     (case RdsSnapshotExportPipelineStack accepts props of
        Inl e \<Rightarrow> Inl e
      | Inr sc \<Rightarrow> Inr (subscriptions sc))"

section \<open>Reading a comma-joined string\<close>

text \<open>
  The environment holds its lists as comma-joined strings. \<open>split_commas\<close> cuts a string
  at every comma. \<open>comma_fields\<close> is the list that a comma-joined string stands for:
  the pieces between its commas, and no piece at all for the empty string, which is
  the join of the empty list.
\<close>

fun split_commas :: "jsstring \<Rightarrow> jsstring list" where
  "split_commas [] = [[]]"
| "split_commas (c # cs) =
     (if c = 0x2C then [] # split_commas cs
      else (case split_commas cs of
              [] \<Rightarrow> [[c]]
            | f # fs \<Rightarrow> (c # f) # fs))"

definition comma_fields :: "jsstring \<Rightarrow> jsstring list" where
  "comma_fields s = (if s = [] then [] else split_commas s)"

section \<open>The catalog database name as the specification words it\<close>

text \<open>
  Every character outside \<open>[A-Za-z0-9_]\<close> is replaced by an underscore; the character
  set is written out.
\<close>

definition word_alphabet :: jsstring where
  "word_alphabet = str ''ABCDEFGHIJKLMNOPQRSTUVWXYZabcdefghijklmnopqrstuvwxyz0123456789_''"

definition catalog_name_spec :: "jsstring \<Rightarrow> jsstring" where
  "catalog_name_spec s = map (\<lambda>c. if c \<in> set word_alphabet then c else 0x5F) s"

section \<open>The application\<close>

text \<open>The properties with which the application instantiates the stack.\<close>

definition app_props :: RdsSnapshotExportPipelineStackProps where
  "app_props =
     \<lparr>s3BucketName = str ''db-mysql-main-2023-06-07'',
      dbName = str ''db-mysql-main'',
      rdsEvents =
        [\<lparr>rdsEventId = DB_AUTOMATED_SNAPSHOT_CREATED, rdsSnapshotType = DB_AUTOMATED_SNAPSHOT\<rparr>,
         \<lparr>rdsEventId = DB_MANUAL_SNAPSHOT_CREATED, rdsSnapshotType = DB_MANUAL_SNAPSHOT\<rparr>,
         \<lparr>rdsEventId = DB_BACKUP_SNAPSHOT_FINISHED_COPY, rdsSnapshotType = DB_BACKUP_SNAPSHOT\<rparr>]\<rparr>"

section \<open>Facts about strings\<close>

lemma unat_of_char: "unat (of_nat (of_char c) :: 16 word) = of_char c"
proof -
  have "(of_char c :: nat) < 256" by simp
  then have "(of_char c :: nat) < 65536" by linarith
  then show ?thesis by (simp add: unat_of_nat)
qed

lemma str_inject [simp]: "str a = str b \<longleftrightarrow> a = b"
proof -
  have "inj (\<lambda>c::char. (of_nat (of_char c) :: 16 word))"
  proof (rule injI)
    fix x y :: char
    assume "(of_nat (of_char x) :: 16 word) = of_nat (of_char y)"
    then have "unat (of_nat (of_char x) :: 16 word) = unat (of_nat (of_char y) :: 16 word)"
      by simp
    then have "(of_char x :: nat) = of_char y" by (simp only: unat_of_char)
    then show "x = y" by simp
  qed
  then show ?thesis unfolding str_def by (simp add: inj_map_eq_map)
qed

section \<open>When the constructor succeeds\<close>

lemma add_constructs_accepted:
  "distinct (map fst (sc @ cs)) \<Longrightarrow> list_all accepts cs
     \<Longrightarrow> add_constructs accepts cs sc = Inr (sc @ cs)"
proof (induction cs arbitrary: sc)
  case Nil
  then show ?case by simp
next
  case (Cons c cs)
  from Cons.prems have "fst c \<notin> set (map fst sc)" and "accepts c" by auto
  then have "add_construct accepts c sc = Inr (sc @ [c])" by (simp add: add_construct_def)
  moreover from Cons.prems have "distinct (map fst ((sc @ [c]) @ cs))" and "list_all accepts cs"
    by simp_all
  ultimately show ?case using Cons.IH [of "sc @ [c]"] by simp
qed

lemma add_constructs_Inr:
  "add_constructs accepts cs sc = Inr sc' \<Longrightarrow> sc' = sc @ cs \<and> list_all accepts cs"
proof (induction cs arbitrary: sc)
  case Nil
  then show ?case by simp
next
  case (Cons c cs)
  from Cons.prems obtain sc1 where a: "add_construct accepts c sc = Inr sc1"
    and b: "add_constructs accepts cs sc1 = Inr sc'"
    by (auto split: sum.splits)
  from a have "sc1 = sc @ [c]" and "accepts c"
    by (auto simp: add_construct_def split: if_splits)
  with Cons.IH [OF b] show ?case by simp
qed

lemma add_constructs_rejected:
  "distinct (map fst (sc @ cs @ [c])) \<Longrightarrow> list_all accepts cs \<Longrightarrow> \<not> accepts c
     \<Longrightarrow> add_constructs accepts (cs @ c # rest) sc = Inl (ValidationError (fst c))"
proof (induction cs arbitrary: sc)
  case Nil
  then show ?case by (simp add: add_construct_def)
next
  case (Cons d cs)
  from Cons.prems have "fst d \<notin> set (map fst sc)" and "accepts d" by auto
  then have "add_construct accepts d sc = Inr (sc @ [d])" by (simp add: add_construct_def)
  moreover from Cons.prems have "distinct (map fst ((sc @ [d]) @ cs @ [c]))" and "list_all accepts cs"
    by simp_all
  ultimately show ?case using Cons.IH [of "sc @ [d]"] Cons.prems(3) by simp
qed

lemmas construct_defs =
  bucket_def snapshotExportTaskRole_def lambdaExecutionRole_def
  snapshotExportGlueCrawlerRole_def snapshotExportEncryptionKey_def snapshotEventTopic_def
  LambdaFunction_def SnapshotExportCrawler_def

lemma constructs_distinct: "distinct (map fst (constructs props))"
  by (simp add: constructs_def construct_defs RdsSnapshotEventNotification_def
      RdsBackupCopyEventNotification_def split: option.splits)

lemma stack_constructs:
  "list_all accepts (constructs props)
     \<Longrightarrow> RdsSnapshotExportPipelineStack accepts props = Inr (constructs props)"
  unfolding RdsSnapshotExportPipelineStack_def
  using add_constructs_accepted [of "[]" "constructs props" accepts] constructs_distinct [of props]
  by simp

lemma stack_Inr_iff:
  "RdsSnapshotExportPipelineStack accepts props = Inr sc
     \<longleftrightarrow> list_all accepts (constructs props) \<and> sc = constructs props"
  using stack_constructs [of accepts props]
    add_constructs_Inr [of accepts "constructs props" "[]" sc]
  unfolding RdsSnapshotExportPipelineStack_def by auto

lemma stack_rejected_bucket:
  "\<not> accepts (bucket props)
     \<Longrightarrow> RdsSnapshotExportPipelineStack accepts props = Inl (ValidationError ''SnapshotExportBucket'')"
  by (simp add: RdsSnapshotExportPipelineStack_def constructs_def add_construct_def bucket_def)

lemma stack_rejected_key:
  "list_all accepts [bucket props, snapshotExportTaskRole, lambdaExecutionRole props,
      snapshotExportGlueCrawlerRole]
   \<Longrightarrow> \<not> accepts (snapshotExportEncryptionKey props)
   \<Longrightarrow> RdsSnapshotExportPipelineStack accepts props
         = Inl (ValidationError ''SnapshotExportEncryptionKey'')"
  unfolding RdsSnapshotExportPipelineStack_def constructs_def
  using add_constructs_rejected [of "[]" "[bucket props, snapshotExportTaskRole, lambdaExecutionRole props,
      snapshotExportGlueCrawlerRole]" "snapshotExportEncryptionKey props" accepts]
  by (simp add: construct_defs)

lemma find_Some_iff_ex: "(List.find P xs \<noteq> None) = (\<exists>x\<in>set xs. P x)"
  by (auto simp: find_None_iff)

lemma subscriptions_constructs:
  "subscriptions (constructs props) =
     (if \<exists>e\<in>set (rdsEvents props). rdsEventId e = DB_AUTOMATED_AURORA_SNAPSHOT_CREATED
      then [\<lparr>snsTopicArn = snapshotEventTopic_topicArn, enabled = True,
              eventCategories = [str ''backup''], sourceType = str ''db-cluster-snapshot''\<rparr>]
      else [\<lparr>snsTopicArn = snapshotEventTopic_topicArn, enabled = True,
              eventCategories = [str ''creation''], sourceType = str ''db-snapshot''\<rparr>])
     @ (if \<exists>e\<in>set (rdsEvents props). rdsEventId e = DB_BACKUP_SNAPSHOT_FINISHED_COPY
        then [\<lparr>snsTopicArn = snapshotEventTopic_topicArn, enabled = True,
                eventCategories = [str ''notification''], sourceType = str ''db-snapshot''\<rparr>]
        else [])"
proof -
  have a: "subscriptions (RdsSnapshotEventNotification props) =
      (if \<exists>e\<in>set (rdsEvents props). rdsEventId e = DB_AUTOMATED_AURORA_SNAPSHOT_CREATED
           then [\<lparr>snsTopicArn = snapshotEventTopic_topicArn, enabled = True,
                   eventCategories = [str ''backup''], sourceType = str ''db-cluster-snapshot''\<rparr>]
           else [\<lparr>snsTopicArn = snapshotEventTopic_topicArn, enabled = True,
                   eventCategories = [str ''creation''], sourceType = str ''db-snapshot''\<rparr>])"
    using find_Some_iff_ex [of "\<lambda>e. rdsEventId e = DB_AUTOMATED_AURORA_SNAPSHOT_CREATED" "rdsEvents props"]
    by (auto simp: RdsSnapshotEventNotification_def subscriptions_def split: option.splits)
  have b: "subscriptions (RdsBackupCopyEventNotification props) =
      (if \<exists>e\<in>set (rdsEvents props). rdsEventId e = DB_BACKUP_SNAPSHOT_FINISHED_COPY
             then [\<lparr>snsTopicArn = snapshotEventTopic_topicArn, enabled = True,
                     eventCategories = [str ''notification''], sourceType = str ''db-snapshot''\<rparr>]
             else [])"
    using find_Some_iff_ex [of "\<lambda>e. rdsEventId e = DB_BACKUP_SNAPSHOT_FINISHED_COPY" "rdsEvents props"]
    by (auto simp: RdsBackupCopyEventNotification_def subscriptions_def split: option.splits)
  have app: "\<And>xs ys. subscriptions (xs @ ys) = subscriptions xs @ subscriptions ys"
    by (simp add: subscriptions_def)
  have "subscriptions (constructs props) =
        subscriptions (RdsSnapshotEventNotification props)
          @ subscriptions (RdsBackupCopyEventNotification props)"
    unfolding constructs_def app by (simp add: subscriptions_def construct_defs)
  then show ?thesis
    unfolding a b by simp
qed

lemma resolve_subscriptions_accepted:
  "list_all accepts (constructs props)
     \<Longrightarrow> resolve_subscriptions accepts props = Inr (subscriptions (constructs props))"
  by (simp add: resolve_subscriptions_def stack_constructs)

lemma constructs_lookup:
  "map_of (constructs props) ''SnapshotExportTaskRole'' = Some (snd snapshotExportTaskRole)"
  "map_of (constructs props) ''RdsSnapshotExporterLambdaExecutionRole''
     = Some (snd (lambdaExecutionRole props))"
  "map_of (constructs props) ''SnapshotExportEncryptionKey''
     = Some (snd (snapshotExportEncryptionKey props))"
  "map_of (constructs props) ''LambdaFunction'' = Some (snd (LambdaFunction props))"
  "map_of (constructs props) ''SnapshotExportCrawler'' = Some (snd (SnapshotExportCrawler props))"
  by (simp_all add: constructs_def construct_defs RdsSnapshotEventNotification_def
      RdsBackupCopyEventNotification_def split: option.splits)

text \<open>
  The inputs of the examples are the application's, with other rule sets. A toolkit
  that bounds the lengths of the three names accepts them.
\<close>

lemma app_constructs_accepted:
  "list_all
     (\<lambda>c. case snd c of
             Bucket b \<Rightarrow> length (bucketName b) \<le> 63
           | Key k \<Rightarrow> length (keyAlias k) \<le> 250
           | Function f \<Rightarrow> length (functionName f) \<le> 64
           | _ \<Rightarrow> True)
     (constructs (app_props\<lparr>rdsEvents := es\<rparr>))"
  by (simp add: constructs_def construct_defs RdsSnapshotEventNotification_def
      RdsBackupCopyEventNotification_def app_props_def str_def split: option.splits)

lemma app_props_accepted:
  "list_all
     (\<lambda>c. case snd c of
             Bucket b \<Rightarrow> length (bucketName b) \<le> 63
           | Key k \<Rightarrow> length (keyAlias k) \<le> 250
           | Function f \<Rightarrow> length (functionName f) \<le> 64
           | _ \<Rightarrow> True)
     (constructs app_props)"
  using app_constructs_accepted [of "rdsEvents app_props"] by simp

section \<open>Serialization\<close>

lemma ToString_JStr: "map (js_ToString \<circ> JStr) xs = xs"
  by (induction xs) simp_all

lemma serialize_join_with: "serialize xs = join_with (str '','') xs"
  by (simp add: serialize_def Array_join_def new_Array_def ToString_JStr)

lemma comma: "str '','' = [0x2C]"
  by (simp add: str_def)

lemma split_commas_not_Nil: "split_commas s \<noteq> []"
  by (induction s) (simp_all split: list.splits)

lemma split_commas_no_comma: "0x2C \<notin> set x \<Longrightarrow> split_commas x = [x]"
  by (induction x) simp_all

lemma split_commas_field:
  "0x2C \<notin> set x \<Longrightarrow> split_commas (x @ 0x2C # rest) = x # split_commas rest"
  by (induction x) simp_all

lemma split_commas_join:
  "\<forall>y\<in>set (x # xs). 0x2C \<notin> set y \<Longrightarrow> split_commas (join_with [0x2C] (x # xs)) = x # xs"
proof (induction xs arbitrary: x)
  case Nil
  then show ?case by (simp add: split_commas_no_comma)
next
  case (Cons y ys)
  then show ?case by (simp add: split_commas_field)
qed

lemma join_with_Nil_iff:
  "\<forall>y\<in>set xs. y \<noteq> [] \<Longrightarrow> join_with sep xs = [] \<longleftrightarrow> xs = []"
  by (induction sep xs rule: join_with.induct) simp_all

lemma comma_fields_serialize:
  assumes "\<forall>y\<in>set xs. y \<noteq> [] \<and> 0x2C \<notin> set y"
  shows "comma_fields (serialize xs) = xs"
proof (cases xs)
  case Nil
  then show ?thesis by (simp add: comma_fields_def serialize_join_with)
next
  case (Cons x ys)
  with assms have "join_with [0x2C] xs \<noteq> []"
    using join_with_Nil_iff [of xs "[0x2C]"] by auto
  moreover from assms Cons have "split_commas (join_with [0x2C] xs) = xs"
    using split_commas_join [of x ys] by auto
  ultimately show ?thesis
    by (simp add: comma_fields_def serialize_join_with comma)
qed

lemma serialize_Nil_iff:
  "\<forall>y\<in>set xs. y \<noteq> [] \<Longrightarrow> serialize xs = [] \<longleftrightarrow> xs = []"
  unfolding serialize_join_with by (rule join_with_Nil_iff)

lemma event_id_field: "RdsEventId_value i \<noteq> [] \<and> 0x2C \<notin> set (RdsEventId_value i)"
  by (cases i) (simp_all add: str_def)

lemma snapshot_type_field:
  "RdsSnapshotType_value t \<noteq> [] \<and> 0x2C \<notin> set (RdsSnapshotType_value t)"
  by (cases t) (simp_all add: str_def)

lemma export_mode_field: "DB_SNAPSHOT_TYPE e \<noteq> [] \<and> 0x2C \<notin> set (DB_SNAPSHOT_TYPE e)"
  by (simp add: DB_SNAPSHOT_TYPE_def str_def)

lemma fields_RDS_EVENT_IDS:
  "comma_fields (serialize (RDS_EVENT_IDS_list props)) = RDS_EVENT_IDS_list props"
  by (rule comma_fields_serialize) (simp add: RDS_EVENT_IDS_list_def event_id_field)

lemma fields_RDS_SNAPSHOT_TYPES:
  "comma_fields (serialize (RDS_SNAPSHOT_TYPES_list props)) = RDS_SNAPSHOT_TYPES_list props"
  by (rule comma_fields_serialize) (simp add: RDS_SNAPSHOT_TYPES_list_def snapshot_type_field)

lemma fields_DB_SNAPSHOT_TYPES:
  "comma_fields (serialize (DB_SNAPSHOT_TYPES_list props)) = DB_SNAPSHOT_TYPES_list props"
  by (rule comma_fields_serialize) (simp add: DB_SNAPSHOT_TYPES_list_def export_mode_field)

lemma serialized_empty_iff:
  "serialize (RDS_EVENT_IDS_list props) = [] \<longleftrightarrow> rdsEvents props = []"
  "serialize (RDS_SNAPSHOT_TYPES_list props) = [] \<longleftrightarrow> rdsEvents props = []"
  "serialize (DB_SNAPSHOT_TYPES_list props) = [] \<longleftrightarrow> rdsEvents props = []"
  using serialize_Nil_iff [of "RDS_EVENT_IDS_list props"]
    serialize_Nil_iff [of "RDS_SNAPSHOT_TYPES_list props"]
    serialize_Nil_iff [of "DB_SNAPSHOT_TYPES_list props"]
  by (simp_all add: RDS_EVENT_IDS_list_def RDS_SNAPSHOT_TYPES_list_def DB_SNAPSHOT_TYPES_list_def
      event_id_field snapshot_type_field export_mode_field)

section \<open>The character class\<close>

lemma nat_ranges:
  fixes n :: nat
  shows "(97 \<le> n \<and> n \<le> 122) = (n \<in> set [97..<123])"
    and "(65 \<le> n \<and> n \<le> 90) = (n \<in> set [65..<91])"
    and "(48 \<le> n \<and> n \<le> 57) = (n \<in> set [48..<58])"
  unfolding set_upt atLeastLessThan_iff by arith+

lemma in_class_alphabet: "in_class c \<longleftrightarrow> c \<in> set word_alphabet"
proof -
  have eq: "\<And>k. (c = numeral k) = (unat c = unat (numeral k :: 16 word))"
    by (simp only: word_unat_eq_iff)
  show ?thesis
    unfolding in_class_def word_alphabet_def str_def word_le_nat_alt
    apply (simp add: eq del: unat_numeral)
    apply (simp only: unat_numeral nat_ranges)
    apply (simp add: upt_rec_numeral)
    apply blast
    done
qed

lemma replace_non_word_map:
  "replace_non_word s = map (\<lambda>c. if in_class c then c else 0x5F) s"
  by (induction s) (simp_all add: replace_non_word_def str_def)

lemma replace_non_word_idem: "replace_non_word (replace_non_word s) = replace_non_word s"
  by (simp add: replace_non_word_map in_class_def)

section \<open>The claims\<close>

text \<open>
  C1 (amended). For every input whose constructs the toolkit accepts and whose rule set
  has neither an Aurora-cluster-automated nor a backup-finished-copy condition, the
  empty rule set among them, the constructor succeeds and creates exactly one event
  subscription: source type \<open>db-snapshot\<close>, event categories \<open>creation\<close>.
\<close>

theorem no_tested_condition_one_creation_subscription:
  assumes "list_all accepts (constructs props)"
    and "\<forall>e\<in>set (rdsEvents props).
             rdsEventId e \<noteq> DB_AUTOMATED_AURORA_SNAPSHOT_CREATED
           \<and> rdsEventId e \<noteq> DB_BACKUP_SNAPSHOT_FINISHED_COPY"
  shows "resolve_subscriptions accepts props =
           Inr [\<lparr>snsTopicArn = snapshotEventTopic_topicArn, enabled = True,
          eventCategories = [str ''creation''], sourceType = str ''db-snapshot''\<rparr>]"
proof -
  from assms(2) have "\<not> (\<exists>e\<in>set (rdsEvents props). rdsEventId e = DB_AUTOMATED_AURORA_SNAPSHOT_CREATED)" "\<not> (\<exists>e\<in>set (rdsEvents props). rdsEventId e = DB_BACKUP_SNAPSHOT_FINISHED_COPY)"
    by blast+
  then show ?thesis
    unfolding resolve_subscriptions_accepted [OF assms(1)] subscriptions_constructs by simp
qed

text \<open>
  The theorem at the application's input with the rule set of one manual-snapshot
  condition, under a toolkit that bounds the lengths of the names.
\<close>

theorem no_tested_condition_one_creation_subscription_witness:
  "list_all (\<lambda>c. case snd c of
              Bucket b \<Rightarrow> length (bucketName b) \<le> 63
            | Key k \<Rightarrow> length (keyAlias k) \<le> 250
            | Function f \<Rightarrow> length (functionName f) \<le> 64
            | _ \<Rightarrow> True)
     (constructs (app_props\<lparr>rdsEvents := [\<lparr>rdsEventId = DB_MANUAL_SNAPSHOT_CREATED, rdsSnapshotType = DB_MANUAL_SNAPSHOT\<rparr>]\<rparr>))
   \<and> rdsEventId \<lparr>rdsEventId = DB_MANUAL_SNAPSHOT_CREATED, rdsSnapshotType = DB_MANUAL_SNAPSHOT\<rparr>
       \<noteq> DB_AUTOMATED_AURORA_SNAPSHOT_CREATED
   \<and> rdsEventId \<lparr>rdsEventId = DB_MANUAL_SNAPSHOT_CREATED, rdsSnapshotType = DB_MANUAL_SNAPSHOT\<rparr>
       \<noteq> DB_BACKUP_SNAPSHOT_FINISHED_COPY
   \<and> resolve_subscriptions (\<lambda>c. case snd c of
              Bucket b \<Rightarrow> length (bucketName b) \<le> 63
            | Key k \<Rightarrow> length (keyAlias k) \<le> 250
            | Function f \<Rightarrow> length (functionName f) \<le> 64
            | _ \<Rightarrow> True)
       (app_props\<lparr>rdsEvents := [\<lparr>rdsEventId = DB_MANUAL_SNAPSHOT_CREATED, rdsSnapshotType = DB_MANUAL_SNAPSHOT\<rparr>]\<rparr>)
     = Inr [\<lparr>snsTopicArn = snapshotEventTopic_topicArn, enabled = True,
          eventCategories = [str ''creation''], sourceType = str ''db-snapshot''\<rparr>]"
  using no_tested_condition_one_creation_subscription
    [OF app_constructs_accepted [of "[\<lparr>rdsEventId = DB_MANUAL_SNAPSHOT_CREATED, rdsSnapshotType = DB_MANUAL_SNAPSHOT\<rparr>]"]]
    app_constructs_accepted [of "[\<lparr>rdsEventId = DB_MANUAL_SNAPSHOT_CREATED, rdsSnapshotType = DB_MANUAL_SNAPSHOT\<rparr>]"]
  by simp

text \<open>
  C1 as stated fails at the application's input with the empty rule set: the toolkit
  accepts the constructs and the constructor creates one event subscription, not none.
\<close>

theorem empty_rule_set_counterexample:
  "resolve_subscriptions (\<lambda>c. case snd c of
              Bucket b \<Rightarrow> length (bucketName b) \<le> 63
            | Key k \<Rightarrow> length (keyAlias k) \<le> 250
            | Function f \<Rightarrow> length (functionName f) \<le> 64
            | _ \<Rightarrow> True)
     (app_props\<lparr>rdsEvents := []\<rparr>)
     = Inr [\<lparr>snsTopicArn = snapshotEventTopic_topicArn, enabled = True,
          eventCategories = [str ''creation''], sourceType = str ''db-snapshot''\<rparr>]
   \<and> resolve_subscriptions (\<lambda>c. case snd c of
              Bucket b \<Rightarrow> length (bucketName b) \<le> 63
            | Key k \<Rightarrow> length (keyAlias k) \<le> 250
            | Function f \<Rightarrow> length (functionName f) \<le> 64
            | _ \<Rightarrow> True)
     (app_props\<lparr>rdsEvents := []\<rparr>)
     \<noteq> Inr []"
  unfolding resolve_subscriptions_accepted [OF app_constructs_accepted [of "[]"]]
    subscriptions_constructs
  by simp

text \<open>
  C2 (amended). For every input whose constructs the toolkit accepts, the constructor
  succeeds and creates at most two event subscriptions, no two with the same pair of
  source type and event categories, and at most one with source type
  \<open>db-cluster-snapshot\<close>. When the rule set has a backup-finished-copy condition and no
  Aurora-cluster-automated condition, the subscriptions are two with source type
  \<open>db-snapshot\<close>, the first with event categories \<open>creation\<close>, the second with
  \<open>notification\<close>; for every other rule set no two subscriptions share a source type.
\<close>

theorem subscriptions_distinct_by_type_and_category:
  assumes "list_all accepts (constructs props)"
  shows "\<exists>ss. resolve_subscriptions accepts props = Inr ss
     \<and> length ss \<le> 2
     \<and> distinct (map (\<lambda>s. (sourceType s, eventCategories s)) ss)
     \<and> length (filter (\<lambda>s. sourceType s = str ''db-cluster-snapshot'') ss) \<le> 1
     \<and> ((\<exists>e\<in>set (rdsEvents props). rdsEventId e = DB_BACKUP_SNAPSHOT_FINISHED_COPY)
          \<and> \<not> (\<exists>e\<in>set (rdsEvents props). rdsEventId e = DB_AUTOMATED_AURORA_SNAPSHOT_CREATED)
        \<longrightarrow> map (\<lambda>s. (sourceType s, eventCategories s)) ss
              = [(str ''db-snapshot'', [str ''creation'']),
                 (str ''db-snapshot'', [str ''notification''])])
     \<and> (\<not> ((\<exists>e\<in>set (rdsEvents props). rdsEventId e = DB_BACKUP_SNAPSHOT_FINISHED_COPY)
             \<and> \<not> (\<exists>e\<in>set (rdsEvents props). rdsEventId e = DB_AUTOMATED_AURORA_SNAPSHOT_CREATED))
        \<longrightarrow> distinct (map sourceType ss))"
  unfolding resolve_subscriptions_accepted [OF assms] subscriptions_constructs by simp

text \<open>
  The theorem at the application's input, under a toolkit that bounds the lengths of
  the names.
\<close>

theorem subscriptions_distinct_by_type_and_category_witness:
  "list_all (\<lambda>c. case snd c of
              Bucket b \<Rightarrow> length (bucketName b) \<le> 63
            | Key k \<Rightarrow> length (keyAlias k) \<le> 250
            | Function f \<Rightarrow> length (functionName f) \<le> 64
            | _ \<Rightarrow> True)
     (constructs app_props)
   \<and> (\<exists>e\<in>set (rdsEvents app_props). rdsEventId e = DB_BACKUP_SNAPSHOT_FINISHED_COPY)
   \<and> \<not> (\<exists>e\<in>set (rdsEvents app_props). rdsEventId e = DB_AUTOMATED_AURORA_SNAPSHOT_CREATED)
   \<and> (\<exists>ss. resolve_subscriptions (\<lambda>c. case snd c of
              Bucket b \<Rightarrow> length (bucketName b) \<le> 63
            | Key k \<Rightarrow> length (keyAlias k) \<le> 250
            | Function f \<Rightarrow> length (functionName f) \<le> 64
            | _ \<Rightarrow> True)
              app_props = Inr ss
        \<and> map (\<lambda>s. (sourceType s, eventCategories s)) ss
              = [(str ''db-snapshot'', [str ''creation'']),
                 (str ''db-snapshot'', [str ''notification''])])"
proof -
  have h: "\<exists>e\<in>set (rdsEvents app_props). rdsEventId e = DB_BACKUP_SNAPSHOT_FINISHED_COPY"
    and a: "\<not> (\<exists>e\<in>set (rdsEvents app_props). rdsEventId e = DB_AUTOMATED_AURORA_SNAPSHOT_CREATED)"
    by (simp_all add: app_props_def)
  from subscriptions_distinct_by_type_and_category [OF app_props_accepted] h a
  have "\<exists>ss. resolve_subscriptions (\<lambda>c. case snd c of
              Bucket b \<Rightarrow> length (bucketName b) \<le> 63
            | Key k \<Rightarrow> length (keyAlias k) \<le> 250
            | Function f \<Rightarrow> length (functionName f) \<le> 64
            | _ \<Rightarrow> True)
              app_props = Inr ss
        \<and> map (\<lambda>s. (sourceType s, eventCategories s)) ss
              = [(str ''db-snapshot'', [str ''creation'']),
                 (str ''db-snapshot'', [str ''notification''])]"
    by (elim exE conjE) (intro exI conjI, assumption, blast)
  with app_props_accepted h a show ?thesis by blast
qed

text \<open>
  C2 as stated fails at the application's input: the toolkit accepts the constructs and
  both event subscriptions have the source type \<open>db-snapshot\<close>.
\<close>

theorem same_source_type_counterexample:
  "resolve_subscriptions (\<lambda>c. case snd c of
              Bucket b \<Rightarrow> length (bucketName b) \<le> 63
            | Key k \<Rightarrow> length (keyAlias k) \<le> 250
            | Function f \<Rightarrow> length (functionName f) \<le> 64
            | _ \<Rightarrow> True)
     app_props
     = Inr [\<lparr>snsTopicArn = snapshotEventTopic_topicArn, enabled = True,
          eventCategories = [str ''creation''], sourceType = str ''db-snapshot''\<rparr>,
            \<lparr>snsTopicArn = snapshotEventTopic_topicArn, enabled = True,
          eventCategories = [str ''notification''], sourceType = str ''db-snapshot''\<rparr>]
   \<and> \<not> distinct (map sourceType
          [\<lparr>snsTopicArn = snapshotEventTopic_topicArn, enabled = True,
          eventCategories = [str ''creation''], sourceType = str ''db-snapshot''\<rparr>,
           \<lparr>snsTopicArn = snapshotEventTopic_topicArn, enabled = True,
          eventCategories = [str ''notification''], sourceType = str ''db-snapshot''\<rparr>])"
  unfolding resolve_subscriptions_accepted [OF app_props_accepted] subscriptions_constructs
  by (simp add: app_props_def)

text \<open>
  C3. For every rule set, of any length, the function's environment holds under
  \<open>RDS_EVENT_IDS\<close>, \<open>RDS_SNAPSHOT_TYPES\<close> and \<open>DB_SNAPSHOT_TYPES\<close> three comma-joined
  strings. The list that each string stands for has as many fields as the rule set has
  conditions, and the field at index \<open>i\<close> is the event identifier, the snapshot type
  and the export mode of the condition at index \<open>i\<close>. A string is empty exactly when
  the rule set is. When the toolkit accepts the constructs, the constructor succeeds
  and the stack holds this function.
\<close>

theorem serialized_lists_aligned:
  "\<exists>f. snd (LambdaFunction props) = Function f
     \<and> map_of (environment f) (str ''RDS_EVENT_IDS'')
           = Some (Lit (serialize (RDS_EVENT_IDS_list props)))
     \<and> map_of (environment f) (str ''RDS_SNAPSHOT_TYPES'')
           = Some (Lit (serialize (RDS_SNAPSHOT_TYPES_list props)))
     \<and> map_of (environment f) (str ''DB_SNAPSHOT_TYPES'')
           = Some (Lit (serialize (DB_SNAPSHOT_TYPES_list props)))
     \<and> length (comma_fields (serialize (RDS_EVENT_IDS_list props))) = length (rdsEvents props)
     \<and> length (comma_fields (serialize (RDS_SNAPSHOT_TYPES_list props)))
           = length (rdsEvents props)
     \<and> length (comma_fields (serialize (DB_SNAPSHOT_TYPES_list props)))
           = length (rdsEvents props)
     \<and> (\<forall>i<length (rdsEvents props).
           comma_fields (serialize (RDS_EVENT_IDS_list props)) ! i
             = RdsEventId_value (rdsEventId (rdsEvents props ! i))
         \<and> comma_fields (serialize (RDS_SNAPSHOT_TYPES_list props)) ! i
             = RdsSnapshotType_value (rdsSnapshotType (rdsEvents props ! i))
         \<and> comma_fields (serialize (DB_SNAPSHOT_TYPES_list props)) ! i
             = DB_SNAPSHOT_TYPE (rdsEvents props ! i))
     \<and> (serialize (RDS_EVENT_IDS_list props) = [] \<longleftrightarrow> rdsEvents props = [])
     \<and> (serialize (RDS_SNAPSHOT_TYPES_list props) = [] \<longleftrightarrow> rdsEvents props = [])
     \<and> (serialize (DB_SNAPSHOT_TYPES_list props) = [] \<longleftrightarrow> rdsEvents props = [])
     \<and> (list_all accepts (constructs props) \<longrightarrow>
          (\<exists>sc. RdsSnapshotExportPipelineStack accepts props = Inr sc
             \<and> map_of sc ''LambdaFunction'' = Some (Function f)))"
proof -
  obtain f where f: "snd (LambdaFunction props) = Function f"
    and e1: "map_of (environment f) (str ''RDS_EVENT_IDS'')
           = Some (Lit (serialize (RDS_EVENT_IDS_list props)))"
    and e2: "map_of (environment f) (str ''RDS_SNAPSHOT_TYPES'')
           = Some (Lit (serialize (RDS_SNAPSHOT_TYPES_list props)))"
    and e3: "map_of (environment f) (str ''DB_SNAPSHOT_TYPES'')
           = Some (Lit (serialize (DB_SNAPSHOT_TYPES_list props)))"
    by (simp add: LambdaFunction_def)
  have l: "length (comma_fields (serialize (RDS_EVENT_IDS_list props))) = length (rdsEvents props)"
    "length (comma_fields (serialize (RDS_SNAPSHOT_TYPES_list props))) = length (rdsEvents props)"
    "length (comma_fields (serialize (DB_SNAPSHOT_TYPES_list props))) = length (rdsEvents props)"
    unfolding fields_RDS_EVENT_IDS fields_RDS_SNAPSHOT_TYPES fields_DB_SNAPSHOT_TYPES
    by (simp_all add: RDS_EVENT_IDS_list_def RDS_SNAPSHOT_TYPES_list_def DB_SNAPSHOT_TYPES_list_def)
  have n: "\<forall>i<length (rdsEvents props).
           comma_fields (serialize (RDS_EVENT_IDS_list props)) ! i
             = RdsEventId_value (rdsEventId (rdsEvents props ! i))
         \<and> comma_fields (serialize (RDS_SNAPSHOT_TYPES_list props)) ! i
             = RdsSnapshotType_value (rdsSnapshotType (rdsEvents props ! i))
         \<and> comma_fields (serialize (DB_SNAPSHOT_TYPES_list props)) ! i
             = DB_SNAPSHOT_TYPE (rdsEvents props ! i)"
    unfolding fields_RDS_EVENT_IDS fields_RDS_SNAPSHOT_TYPES fields_DB_SNAPSHOT_TYPES
    by (simp add: RDS_EVENT_IDS_list_def RDS_SNAPSHOT_TYPES_list_def DB_SNAPSHOT_TYPES_list_def)
  have s: "list_all accepts (constructs props) \<longrightarrow>
          (\<exists>sc. RdsSnapshotExportPipelineStack accepts props = Inr sc
             \<and> map_of sc ''LambdaFunction'' = Some (Function f))"
    using stack_constructs [of accepts props] constructs_lookup(4) [of props] f by simp
  from f e1 e2 e3 l n s serialized_empty_iff [of props] show ?thesis
    by (intro exI [of _ f] conjI) assumption+
qed

text \<open>
  The theorem at the application's input, index 1, under a toolkit that bounds the
  lengths of the names, and at the empty rule set.
\<close>

theorem serialized_lists_aligned_witness:
  "1 < length (rdsEvents app_props)
   \<and> list_all (\<lambda>c. case snd c of
              Bucket b \<Rightarrow> length (bucketName b) \<le> 63
            | Key k \<Rightarrow> length (keyAlias k) \<le> 250
            | Function f \<Rightarrow> length (functionName f) \<le> 64
            | _ \<Rightarrow> True)
       (constructs app_props)
   \<and> comma_fields (serialize (RDS_EVENT_IDS_list app_props)) ! 1 = str ''RDS-EVENT-0042''
   \<and> comma_fields (serialize (RDS_SNAPSHOT_TYPES_list app_props)) ! 1 = str ''MANUAL''
   \<and> comma_fields (serialize (DB_SNAPSHOT_TYPES_list app_props)) ! 1 = str ''snapshot''
   \<and> length (comma_fields (serialize (RDS_EVENT_IDS_list app_props))) = 3
   \<and> length (comma_fields (serialize (RDS_EVENT_IDS_list (app_props\<lparr>rdsEvents := []\<rparr>)))) = 0
   \<and> (\<exists>sc f. RdsSnapshotExportPipelineStack (\<lambda>c. case snd c of
              Bucket b \<Rightarrow> length (bucketName b) \<le> 63
            | Key k \<Rightarrow> length (keyAlias k) \<le> 250
            | Function f \<Rightarrow> length (functionName f) \<le> 64
            | _ \<Rightarrow> True)
                app_props = Inr sc
          \<and> map_of sc ''LambdaFunction'' = Some (Function f)
          \<and> map_of (environment f) (str ''RDS_EVENT_IDS'')
              = Some (Lit (str ''RDS-EVENT-0091,RDS-EVENT-0042,RDS-EVENT-0197'')))"
proof -
  let ?tk = "(\<lambda>c. case snd c of
              Bucket b \<Rightarrow> length (bucketName b) \<le> 63
            | Key k \<Rightarrow> length (keyAlias k) \<le> 250
            | Function f \<Rightarrow> length (functionName f) \<le> 64
            | _ \<Rightarrow> True)"
  from serialized_lists_aligned [of app_props ?tk] app_props_accepted
  obtain f sc where "map_of (environment f) (str ''RDS_EVENT_IDS'')
           = Some (Lit (serialize (RDS_EVENT_IDS_list app_props)))"
    and "RdsSnapshotExportPipelineStack ?tk app_props = Inr sc"
    and "map_of sc ''LambdaFunction'' = Some (Function f)"
    and n: "\<forall>i<length (rdsEvents app_props).
           comma_fields (serialize (RDS_EVENT_IDS_list app_props)) ! i
             = RdsEventId_value (rdsEventId (rdsEvents app_props ! i))
         \<and> comma_fields (serialize (RDS_SNAPSHOT_TYPES_list app_props)) ! i
             = RdsSnapshotType_value (rdsSnapshotType (rdsEvents app_props ! i))
         \<and> comma_fields (serialize (DB_SNAPSHOT_TYPES_list app_props)) ! i
             = DB_SNAPSHOT_TYPE (rdsEvents app_props ! i)"
    and l: "length (comma_fields (serialize (RDS_EVENT_IDS_list app_props)))
             = length (rdsEvents app_props)"
    by (elim exE conjE impE) assumption+
  moreover have "serialize (RDS_EVENT_IDS_list app_props)
      = str ''RDS-EVENT-0091,RDS-EVENT-0042,RDS-EVENT-0197''"
    by (simp add: serialize_join_with RDS_EVENT_IDS_list_def app_props_def str_def)
  ultimately have x: "\<exists>sc f. RdsSnapshotExportPipelineStack ?tk app_props = Inr sc
          \<and> map_of sc ''LambdaFunction'' = Some (Function f)
          \<and> map_of (environment f) (str ''RDS_EVENT_IDS'')
              = Some (Lit (str ''RDS-EVENT-0091,RDS-EVENT-0042,RDS-EVENT-0197''))"
    by (intro exI [of _ sc] exI [of _ f]) simp
  have len: "length (rdsEvents app_props) = 3"
    by (simp add: app_props_def)
  from n len have y:
    "comma_fields (serialize (RDS_EVENT_IDS_list app_props)) ! 1 = str ''RDS-EVENT-0042''"
    "comma_fields (serialize (RDS_SNAPSHOT_TYPES_list app_props)) ! 1 = str ''MANUAL''"
    "comma_fields (serialize (DB_SNAPSHOT_TYPES_list app_props)) ! 1 = str ''snapshot''"
    by (simp_all add: app_props_def DB_SNAPSHOT_TYPE_def)
  from serialized_lists_aligned [of "app_props\<lparr>rdsEvents := []\<rparr>" ?tk]
  have z: "length (comma_fields (serialize (RDS_EVENT_IDS_list (app_props\<lparr>rdsEvents := []\<rparr>)))) = 0"
    by (elim exE conjE) simp
  from x y z l len app_props_accepted show ?thesis by simp
qed

text \<open>
  C4. For every input whose constructs the toolkit accepts, whatever its rule set, the
  constructor succeeds and the policy of the encryption key contains the statement that
  allows the root principal of the deploying account every key action (\<open>kms:*\<close>) on
  every resource, without a condition. It is the first statement of the policy.
\<close>

theorem key_policy_root_grant:
  assumes "list_all accepts (constructs props)"
  shows "\<exists>sc k. RdsSnapshotExportPipelineStack accepts props = Inr sc
     \<and> map_of sc ''SnapshotExportEncryptionKey'' = Some (Key k)
     \<and> \<lparr>Principal = [AccountRootPrincipal_arn], Action = [str ''kms:*''],
         Resource = [Lit (str ''*'')], Condition = None, Effect = str ''Allow''\<rparr>
        \<in> set (policy k)
     \<and> take 1 (policy k)
        = [\<lparr>Principal = [AccountRootPrincipal_arn], Action = [str ''kms:*''],
         Resource = [Lit (str ''*'')], Condition = None, Effect = str ''Allow''\<rparr>]"
proof -
  have "RdsSnapshotExportPipelineStack accepts props = Inr (constructs props)"
    using assms by (rule stack_constructs)
  moreover have "map_of (constructs props) ''SnapshotExportEncryptionKey''
      = Some (snd (snapshotExportEncryptionKey props))"
    by (rule constructs_lookup)
  ultimately show ?thesis
    by (simp add: snapshotExportEncryptionKey_def)
qed

text \<open>
  The theorem at the application's input with the empty rule set, under a toolkit that
  bounds the lengths of the names.
\<close>

theorem key_policy_root_grant_witness:
  "list_all (\<lambda>c. case snd c of
              Bucket b \<Rightarrow> length (bucketName b) \<le> 63
            | Key k \<Rightarrow> length (keyAlias k) \<le> 250
            | Function f \<Rightarrow> length (functionName f) \<le> 64
            | _ \<Rightarrow> True)
     (constructs (app_props\<lparr>rdsEvents := []\<rparr>))
   \<and> (\<exists>sc k. RdsSnapshotExportPipelineStack (\<lambda>c. case snd c of
              Bucket b \<Rightarrow> length (bucketName b) \<le> 63
            | Key k \<Rightarrow> length (keyAlias k) \<le> 250
            | Function f \<Rightarrow> length (functionName f) \<le> 64
            | _ \<Rightarrow> True)
                (app_props\<lparr>rdsEvents := []\<rparr>) = Inr sc
         \<and> map_of sc ''SnapshotExportEncryptionKey'' = Some (Key k)
         \<and> \<lparr>Principal = [AccountRootPrincipal_arn], Action = [str ''kms:*''],
         Resource = [Lit (str ''*'')], Condition = None, Effect = str ''Allow''\<rparr>
            \<in> set (policy k))"
proof -
  let ?tk = "(\<lambda>c. case snd c of
              Bucket b \<Rightarrow> length (bucketName b) \<le> 63
            | Key k \<Rightarrow> length (keyAlias k) \<le> 250
            | Function f \<Rightarrow> length (functionName f) \<le> 64
            | _ \<Rightarrow> True)"
  from key_policy_root_grant [OF app_constructs_accepted [of "[]"]]
  have "\<exists>sc k. RdsSnapshotExportPipelineStack ?tk (app_props\<lparr>rdsEvents := []\<rparr>) = Inr sc
         \<and> map_of sc ''SnapshotExportEncryptionKey'' = Some (Key k)
         \<and> \<lparr>Principal = [AccountRootPrincipal_arn], Action = [str ''kms:*''],
         Resource = [Lit (str ''*'')], Condition = None, Effect = str ''Allow''\<rparr>
            \<in> set (policy k)"
    by (elim exE conjE) (intro exI conjI, assumption+)
  with app_constructs_accepted [of "[]"] show ?thesis by simp
qed

text \<open>
  C5. For every input whose constructs the toolkit accepts, the constructor succeeds.
  The role under which the function runs has one inline policy of two statements: one
  allows \<open>rds:StartExportTask\<close> and \<open>rds:DescribeDBSnapshots\<close> on every resource, the
  other allows \<open>iam:PassRole\<close> on one resource, the identity of the export-task role,
  which is the role that the export service assumes. Its only managed policy is the
  basic execution policy for functions. The environment of the function gives the
  same identity under \<open>SNAPSHOT_TASK_ROLE\<close>.
\<close>

theorem pass_role_names_export_task_role:
  assumes "list_all accepts (constructs props)"
  shows "\<exists>sc f r t. RdsSnapshotExportPipelineStack accepts props = Inr sc
     \<and> map_of sc ''LambdaFunction'' = Some (Function f)
     \<and> map_of sc (role f) = Some (Role r)
     \<and> map snd (inlinePolicies r)
        = [[\<lparr>Principal = [],
              Action = [str ''rds:StartExportTask'', str ''rds:DescribeDBSnapshots''],
              Resource = [Lit (str ''*'')], Condition = None, Effect = str ''Allow''\<rparr>,
            \<lparr>Principal = [], Action = [str ''iam:PassRole''],
              Resource = [Attr ''SnapshotExportTaskRole'' ''roleArn''],
              Condition = None, Effect = str ''Allow''\<rparr>]]
     \<and> managedPolicies r = [str ''service-role/AWSLambdaBasicExecutionRole'']
     \<and> map_of (environment f) (str ''SNAPSHOT_TASK_ROLE'')
        = Some (Attr ''SnapshotExportTaskRole'' ''roleArn'')
     \<and> map_of sc ''SnapshotExportTaskRole'' = Some (Role t)
     \<and> assumedBy t = str ''export.rds.amazonaws.com''"
proof -
  have sc: "RdsSnapshotExportPipelineStack accepts props = Inr (constructs props)"
    using assms by (rule stack_constructs)
  obtain f' where f': "snd (LambdaFunction props) = Function f'"
    and rf: "role f' = ''RdsSnapshotExporterLambdaExecutionRole''"
    and e: "map_of (environment f') (str ''SNAPSHOT_TASK_ROLE'')
        = Some (Attr ''SnapshotExportTaskRole'' ''roleArn'')"
    by (simp add: LambdaFunction_def snapshotExportTaskRole_roleArn_def)
  obtain r' where r': "snd (lambdaExecutionRole props) = Role r'"
    and p: "map snd (inlinePolicies r')
        = [[\<lparr>Principal = [],
              Action = [str ''rds:StartExportTask'', str ''rds:DescribeDBSnapshots''],
              Resource = [Lit (str ''*'')], Condition = None, Effect = str ''Allow''\<rparr>,
            \<lparr>Principal = [], Action = [str ''iam:PassRole''],
              Resource = [Attr ''SnapshotExportTaskRole'' ''roleArn''],
              Condition = None, Effect = str ''Allow''\<rparr>]]"
    and m: "managedPolicies r' = [str ''service-role/AWSLambdaBasicExecutionRole'']"
    by (simp add: lambdaExecutionRole_def snapshotExportTaskRole_roleArn_def)
  obtain t' where t': "snd snapshotExportTaskRole = Role t'"
    and a: "assumedBy t' = str ''export.rds.amazonaws.com''"
    by (simp add: snapshotExportTaskRole_def)
  from f' rf r' have l: "map_of (constructs props) ''LambdaFunction'' = Some (Function f')"
    "map_of (constructs props) (role f') = Some (Role r')"
    using constructs_lookup(2,4) [of props] by simp_all
  from t' have lt: "map_of (constructs props) ''SnapshotExportTaskRole'' = Some (Role t')"
    using constructs_lookup(1) [of props] by simp
  from sc l p m e lt a show ?thesis
    by (intro exI [of _ "constructs props"] exI [of _ f'] exI [of _ r'] exI [of _ t'] conjI)
      assumption+
qed

text \<open>
  The theorem at the application's input, under a toolkit that bounds the lengths of
  the names.
\<close>

theorem pass_role_names_export_task_role_witness:
  "list_all (\<lambda>c. case snd c of
              Bucket b \<Rightarrow> length (bucketName b) \<le> 63
            | Key k \<Rightarrow> length (keyAlias k) \<le> 250
            | Function f \<Rightarrow> length (functionName f) \<le> 64
            | _ \<Rightarrow> True)
     (constructs app_props)
   \<and> (\<exists>sc f r. RdsSnapshotExportPipelineStack (\<lambda>c. case snd c of
              Bucket b \<Rightarrow> length (bucketName b) \<le> 63
            | Key k \<Rightarrow> length (keyAlias k) \<le> 250
            | Function f \<Rightarrow> length (functionName f) \<le> 64
            | _ \<Rightarrow> True)
                app_props = Inr sc
     \<and> map_of sc ''LambdaFunction'' = Some (Function f)
     \<and> map_of sc (role f) = Some (Role r)
     \<and> map snd (inlinePolicies r)
        = [[\<lparr>Principal = [],
              Action = [str ''rds:StartExportTask'', str ''rds:DescribeDBSnapshots''],
              Resource = [Lit (str ''*'')], Condition = None, Effect = str ''Allow''\<rparr>,
            \<lparr>Principal = [], Action = [str ''iam:PassRole''],
              Resource = [Attr ''SnapshotExportTaskRole'' ''roleArn''],
              Condition = None, Effect = str ''Allow''\<rparr>]]
     \<and> map_of (environment f) (str ''SNAPSHOT_TASK_ROLE'')
        = Some (Attr ''SnapshotExportTaskRole'' ''roleArn''))"
proof -
  let ?tk = "(\<lambda>c. case snd c of
              Bucket b \<Rightarrow> length (bucketName b) \<le> 63
            | Key k \<Rightarrow> length (keyAlias k) \<le> 250
            | Function f \<Rightarrow> length (functionName f) \<le> 64
            | _ \<Rightarrow> True)"
  from pass_role_names_export_task_role [OF app_props_accepted]
  have "\<exists>sc f r. RdsSnapshotExportPipelineStack ?tk app_props = Inr sc
     \<and> map_of sc ''LambdaFunction'' = Some (Function f)
     \<and> map_of sc (role f) = Some (Role r)
     \<and> map snd (inlinePolicies r)
        = [[\<lparr>Principal = [],
              Action = [str ''rds:StartExportTask'', str ''rds:DescribeDBSnapshots''],
              Resource = [Lit (str ''*'')], Condition = None, Effect = str ''Allow''\<rparr>,
            \<lparr>Principal = [], Action = [str ''iam:PassRole''],
              Resource = [Attr ''SnapshotExportTaskRole'' ''roleArn''],
              Condition = None, Effect = str ''Allow''\<rparr>]]
     \<and> map_of (environment f) (str ''SNAPSHOT_TASK_ROLE'')
        = Some (Attr ''SnapshotExportTaskRole'' ''roleArn'')"
    by (elim exE conjE) (intro exI conjI, assumption+)
  with app_props_accepted show ?thesis by simp
qed

text \<open>
  C6. For every input whose constructs the toolkit accepts, the constructor succeeds.
  When the rule set has a backup-finished-copy condition, the subscriptions are the
  creation-class one followed by a second with source type \<open>db-snapshot\<close> and event
  categories \<open>notification\<close>; otherwise the creation-class subscription is the only one
  and no subscription has the categories \<open>notification\<close>. The creation-class
  subscription is chosen by the presence of an Aurora-cluster-automated condition alone.
\<close>

theorem backup_copy_subscription_additive:
  assumes "list_all accepts (constructs props)"
  shows "\<exists>ss c. resolve_subscriptions accepts props = Inr ss
     \<and> c = (if \<exists>e\<in>set (rdsEvents props). rdsEventId e = DB_AUTOMATED_AURORA_SNAPSHOT_CREATED
            then \<lparr>snsTopicArn = snapshotEventTopic_topicArn, enabled = True,
          eventCategories = [str ''backup''], sourceType = str ''db-cluster-snapshot''\<rparr>
            else \<lparr>snsTopicArn = snapshotEventTopic_topicArn, enabled = True,
          eventCategories = [str ''creation''], sourceType = str ''db-snapshot''\<rparr>)
     \<and> ((\<exists>e\<in>set (rdsEvents props). rdsEventId e = DB_BACKUP_SNAPSHOT_FINISHED_COPY) \<longrightarrow>
          ss = [c, \<lparr>snsTopicArn = snapshotEventTopic_topicArn, enabled = True,
          eventCategories = [str ''notification''], sourceType = str ''db-snapshot''\<rparr>])
     \<and> (\<not> (\<exists>e\<in>set (rdsEvents props). rdsEventId e = DB_BACKUP_SNAPSHOT_FINISHED_COPY) \<longrightarrow>
          ss = [c] \<and> (\<forall>s\<in>set ss. eventCategories s \<noteq> [str ''notification'']))"
  unfolding resolve_subscriptions_accepted [OF assms] subscriptions_constructs by simp

text \<open>
  The theorem at the application's input, whose rule set has the condition, under a
  toolkit that bounds the lengths of the names.
\<close>

theorem backup_copy_subscription_additive_witness:
  "list_all (\<lambda>c. case snd c of
              Bucket b \<Rightarrow> length (bucketName b) \<le> 63
            | Key k \<Rightarrow> length (keyAlias k) \<le> 250
            | Function f \<Rightarrow> length (functionName f) \<le> 64
            | _ \<Rightarrow> True)
     (constructs app_props)
   \<and> (\<exists>e\<in>set (rdsEvents app_props). rdsEventId e = DB_BACKUP_SNAPSHOT_FINISHED_COPY)
   \<and> resolve_subscriptions (\<lambda>c. case snd c of
              Bucket b \<Rightarrow> length (bucketName b) \<le> 63
            | Key k \<Rightarrow> length (keyAlias k) \<le> 250
            | Function f \<Rightarrow> length (functionName f) \<le> 64
            | _ \<Rightarrow> True)
       app_props
       = Inr [\<lparr>snsTopicArn = snapshotEventTopic_topicArn, enabled = True,
          eventCategories = [str ''creation''], sourceType = str ''db-snapshot''\<rparr>,
              \<lparr>snsTopicArn = snapshotEventTopic_topicArn, enabled = True,
          eventCategories = [str ''notification''], sourceType = str ''db-snapshot''\<rparr>]"
proof -
  have h: "\<exists>e\<in>set (rdsEvents app_props). rdsEventId e = DB_BACKUP_SNAPSHOT_FINISHED_COPY"
    and a: "\<not> (\<exists>e\<in>set (rdsEvents app_props). rdsEventId e = DB_AUTOMATED_AURORA_SNAPSHOT_CREATED)"
    by (simp_all add: app_props_def)
  from backup_copy_subscription_additive [OF app_props_accepted] h a app_props_accepted
  show ?thesis by auto
qed

text \<open>
  C7. For every input whose constructs the toolkit accepts and whose rule set has an
  Aurora-cluster-automated condition, the constructor succeeds, a subscription with
  source type \<open>db-cluster-snapshot\<close> and event categories \<open>backup\<close> is created, and no
  subscription has source type \<open>db-snapshot\<close> with event categories \<open>creation\<close>.
\<close>

theorem aurora_cluster_subscription_exclusive:
  assumes "list_all accepts (constructs props)"
    and "\<exists>e\<in>set (rdsEvents props). rdsEventId e = DB_AUTOMATED_AURORA_SNAPSHOT_CREATED"
  shows "\<exists>ss. resolve_subscriptions accepts props = Inr ss
     \<and> (\<exists>s\<in>set ss. sourceType s = str ''db-cluster-snapshot''
                    \<and> eventCategories s = [str ''backup''])
     \<and> \<not> (\<exists>s\<in>set ss. sourceType s = str ''db-snapshot''
                       \<and> eventCategories s = [str ''creation''])"
  using assms(2) unfolding resolve_subscriptions_accepted [OF assms(1)] subscriptions_constructs
  by simp

text \<open>
  The theorem at the application's input with a rule set of an Aurora-cluster-automated
  and a backup-finished-copy condition, under a toolkit that bounds the lengths of the
  names.
\<close>

theorem aurora_cluster_subscription_exclusive_witness:
  "list_all (\<lambda>c. case snd c of
              Bucket b \<Rightarrow> length (bucketName b) \<le> 63
            | Key k \<Rightarrow> length (keyAlias k) \<le> 250
            | Function f \<Rightarrow> length (functionName f) \<le> 64
            | _ \<Rightarrow> True)
     (constructs (app_props\<lparr>rdsEvents := [\<lparr>rdsEventId = DB_AUTOMATED_AURORA_SNAPSHOT_CREATED, rdsSnapshotType = DB_AUTOMATED_SNAPSHOT\<rparr>,
                                            \<lparr>rdsEventId = DB_BACKUP_SNAPSHOT_FINISHED_COPY, rdsSnapshotType = DB_BACKUP_SNAPSHOT\<rparr>]\<rparr>))
   \<and> (\<exists>e\<in>set (rdsEvents (app_props\<lparr>rdsEvents := [\<lparr>rdsEventId = DB_AUTOMATED_AURORA_SNAPSHOT_CREATED, rdsSnapshotType = DB_AUTOMATED_SNAPSHOT\<rparr>,
                                            \<lparr>rdsEventId = DB_BACKUP_SNAPSHOT_FINISHED_COPY, rdsSnapshotType = DB_BACKUP_SNAPSHOT\<rparr>]\<rparr>)).
        rdsEventId e = DB_AUTOMATED_AURORA_SNAPSHOT_CREATED)
   \<and> (\<exists>ss. resolve_subscriptions (\<lambda>c. case snd c of
              Bucket b \<Rightarrow> length (bucketName b) \<le> 63
            | Key k \<Rightarrow> length (keyAlias k) \<le> 250
            | Function f \<Rightarrow> length (functionName f) \<le> 64
            | _ \<Rightarrow> True)
              (app_props\<lparr>rdsEvents := [\<lparr>rdsEventId = DB_AUTOMATED_AURORA_SNAPSHOT_CREATED, rdsSnapshotType = DB_AUTOMATED_SNAPSHOT\<rparr>,
                                       \<lparr>rdsEventId = DB_BACKUP_SNAPSHOT_FINISHED_COPY, rdsSnapshotType = DB_BACKUP_SNAPSHOT\<rparr>]\<rparr>) = Inr ss
        \<and> (\<exists>s\<in>set ss. sourceType s = str ''db-cluster-snapshot''
                       \<and> eventCategories s = [str ''backup''])
        \<and> \<not> (\<exists>s\<in>set ss. sourceType s = str ''db-snapshot''
                          \<and> eventCategories s = [str ''creation'']))"
proof -
  let ?es = "[\<lparr>rdsEventId = DB_AUTOMATED_AURORA_SNAPSHOT_CREATED, rdsSnapshotType = DB_AUTOMATED_SNAPSHOT\<rparr>,
              \<lparr>rdsEventId = DB_BACKUP_SNAPSHOT_FINISHED_COPY, rdsSnapshotType = DB_BACKUP_SNAPSHOT\<rparr>]"
  have h: "\<exists>e\<in>set (rdsEvents (app_props\<lparr>rdsEvents := ?es\<rparr>)).
             rdsEventId e = DB_AUTOMATED_AURORA_SNAPSHOT_CREATED"
    by simp
  from aurora_cluster_subscription_exclusive [OF app_constructs_accepted [of ?es] h]
    app_constructs_accepted [of ?es] h
  show ?thesis by (intro conjI) assumption+
qed

text \<open>
  C9. The catalog database name that the crawler receives is \<open>dbName\<close> with every
  code unit outside \<open>[A-Za-z0-9_]\<close> replaced by an underscore. The replacement is a
  function of its input and is idempotent; it sends \<open>db-mysql-main\<close> to
  \<open>db_mysql_main\<close> and leaves \<open>db_mysql_main\<close> unchanged. When the toolkit accepts the
  constructs, the constructor succeeds and the stack holds this crawler.
\<close>

theorem catalog_name_normalization:
  "replace_non_word s = catalog_name_spec s
   \<and> replace_non_word (replace_non_word s) = replace_non_word s
   \<and> replace_non_word (str ''db-mysql-main'') = str ''db_mysql_main''
   \<and> replace_non_word (str ''db_mysql_main'') = str ''db_mysql_main''
   \<and> (\<exists>c. snd (SnapshotExportCrawler props) = CfnCrawler c
          \<and> databaseName c = replace_non_word (dbName props)
          \<and> (list_all accepts (constructs props) \<longrightarrow>
               (\<exists>sc. RdsSnapshotExportPipelineStack accepts props = Inr sc
                  \<and> map_of sc ''SnapshotExportCrawler'' = Some (CfnCrawler c))))"
proof -
  have a: "replace_non_word s = catalog_name_spec s"
    by (simp add: replace_non_word_map catalog_name_spec_def in_class_alphabet)
  have b: "replace_non_word (str ''db-mysql-main'') = str ''db_mysql_main''"
    by (simp add: replace_non_word_def str_def in_class_def)
  have c: "replace_non_word (str ''db_mysql_main'') = str ''db_mysql_main''"
    by (simp add: replace_non_word_def str_def in_class_def)
  obtain c' where c': "snd (SnapshotExportCrawler props) = CfnCrawler c'"
    and d: "databaseName c' = replace_non_word (dbName props)"
    by (simp add: SnapshotExportCrawler_def)
  have "list_all accepts (constructs props) \<longrightarrow>
               (\<exists>sc. RdsSnapshotExportPipelineStack accepts props = Inr sc
                  \<and> map_of sc ''SnapshotExportCrawler'' = Some (CfnCrawler c'))"
    using stack_constructs [of accepts props] constructs_lookup(5) [of props] c' by simp
  with c' d have e: "\<exists>c. snd (SnapshotExportCrawler props) = CfnCrawler c
          \<and> databaseName c = replace_non_word (dbName props)
          \<and> (list_all accepts (constructs props) \<longrightarrow>
               (\<exists>sc. RdsSnapshotExportPipelineStack accepts props = Inr sc
                  \<and> map_of sc ''SnapshotExportCrawler'' = Some (CfnCrawler c)))"
    by (intro exI [of _ c'] conjI) assumption+
  from a b c e replace_non_word_idem [of s] show ?thesis
    by (intro conjI) assumption+
qed

text \<open>
  The theorem at the application's input, under a toolkit that bounds the lengths of
  the names.
\<close>

theorem catalog_name_normalization_witness:
  "list_all (\<lambda>c. case snd c of
              Bucket b \<Rightarrow> length (bucketName b) \<le> 63
            | Key k \<Rightarrow> length (keyAlias k) \<le> 250
            | Function f \<Rightarrow> length (functionName f) \<le> 64
            | _ \<Rightarrow> True)
     (constructs app_props)
   \<and> (\<exists>sc c. RdsSnapshotExportPipelineStack (\<lambda>c. case snd c of
              Bucket b \<Rightarrow> length (bucketName b) \<le> 63
            | Key k \<Rightarrow> length (keyAlias k) \<le> 250
            | Function f \<Rightarrow> length (functionName f) \<le> 64
            | _ \<Rightarrow> True)
                app_props = Inr sc
         \<and> map_of sc ''SnapshotExportCrawler'' = Some (CfnCrawler c)
         \<and> databaseName c = str ''db_mysql_main''
         \<and> replace_non_word (databaseName c) = databaseName c)"
proof -
  let ?tk = "(\<lambda>c. case snd c of
              Bucket b \<Rightarrow> length (bucketName b) \<le> 63
            | Key k \<Rightarrow> length (keyAlias k) \<le> 250
            | Function f \<Rightarrow> length (functionName f) \<le> 64
            | _ \<Rightarrow> True)"
  from catalog_name_normalization [of "dbName app_props" app_props ?tk] app_props_accepted
  obtain sc c where "RdsSnapshotExportPipelineStack ?tk app_props = Inr sc"
    and "map_of sc ''SnapshotExportCrawler'' = Some (CfnCrawler c)"
    and "databaseName c = replace_non_word (dbName app_props)"
    and "replace_non_word (replace_non_word (dbName app_props))
           = replace_non_word (dbName app_props)"
    and "replace_non_word (str ''db-mysql-main'') = str ''db_mysql_main''"
    by (elim exE conjE impE) assumption+
  moreover have "dbName app_props = str ''db-mysql-main''"
    by (simp add: app_props_def)
  ultimately have "\<exists>sc c. RdsSnapshotExportPipelineStack ?tk app_props = Inr sc
         \<and> map_of sc ''SnapshotExportCrawler'' = Some (CfnCrawler c)
         \<and> databaseName c = str ''db_mysql_main''
         \<and> replace_non_word (databaseName c) = databaseName c"
    by (intro exI [of _ sc] exI [of _ c]) simp
  with app_props_accepted show ?thesis by simp
qed

text \<open>
  C8. The export mode of a condition is \<open>cluster-snapshot\<close> exactly when its event
  identifier is \<open>RDS-EVENT-0169\<close>, the Aurora-cluster-automated event, and \<open>snapshot\<close>
  for every other event identifier. It does not change with the snapshot type, and
  the list serialized under \<open>DB_SNAPSHOT_TYPES\<close> holds the export mode of each condition.
\<close>

theorem export_mode_by_event_id:
  "(DB_SNAPSHOT_TYPE e = str ''cluster-snapshot''
      \<longleftrightarrow> RdsEventId_value (rdsEventId e) = str ''RDS-EVENT-0169'')
   \<and> (RdsEventId_value (rdsEventId e) \<noteq> str ''RDS-EVENT-0169''
        \<longrightarrow> DB_SNAPSHOT_TYPE e = str ''snapshot'')
   \<and> DB_SNAPSHOT_TYPE (e\<lparr>rdsSnapshotType := t\<rparr>) = DB_SNAPSHOT_TYPE e
   \<and> DB_SNAPSHOT_TYPES_list props = map DB_SNAPSHOT_TYPE (rdsEvents props)"
  by (cases "rdsEventId e") (simp_all add: DB_SNAPSHOT_TYPE_def DB_SNAPSHOT_TYPES_list_def)

text \<open>The theorem at the manual-snapshot condition, with the snapshot type changed.\<close>

theorem export_mode_by_event_id_witness:
  "RdsEventId_value
     (rdsEventId \<lparr>rdsEventId = DB_MANUAL_SNAPSHOT_CREATED, rdsSnapshotType = DB_MANUAL_SNAPSHOT\<rparr>)
     \<noteq> str ''RDS-EVENT-0169''
   \<and> DB_SNAPSHOT_TYPE
       \<lparr>rdsEventId = DB_MANUAL_SNAPSHOT_CREATED, rdsSnapshotType = DB_MANUAL_SNAPSHOT\<rparr>
     = str ''snapshot''
   \<and> DB_SNAPSHOT_TYPE
       \<lparr>rdsEventId = DB_MANUAL_SNAPSHOT_CREATED, rdsSnapshotType = DB_BACKUP_SNAPSHOT\<rparr>
     = str ''snapshot''"
  using export_mode_by_event_id
    [of "\<lparr>rdsEventId = DB_MANUAL_SNAPSHOT_CREATED, rdsSnapshotType = DB_MANUAL_SNAPSHOT\<rparr>"
        DB_BACKUP_SNAPSHOT app_props]
  by simp

text \<open>
  C10. The expression of the environment, \<open>new Array(list).join()\<close>, gives for every
  list of strings the string that \<open>list.join(",")\<close> gives; so it does for each of the
  three lists of the environment.
\<close>

theorem wrapped_join_is_comma_join:
  "Array_join None (new_Array (JArr (map JStr xs))) = Array_join (Some (str '','')) (map JStr xs)
   \<and> serialize (RDS_EVENT_IDS_list props)
       = Array_join (Some (str '','')) (map JStr (RDS_EVENT_IDS_list props))
   \<and> serialize (RDS_SNAPSHOT_TYPES_list props)
       = Array_join (Some (str '','')) (map JStr (RDS_SNAPSHOT_TYPES_list props))
   \<and> serialize (DB_SNAPSHOT_TYPES_list props)
       = Array_join (Some (str '','')) (map JStr (DB_SNAPSHOT_TYPES_list props))"
proof -
  have "\<And>ys. serialize ys = Array_join (Some (str '','')) (map JStr ys)"
    by (simp add: serialize_join_with Array_join_def ToString_JStr)
  then show ?thesis by (simp add: serialize_def)
qed

text \<open>The theorem at the application's rule set.\<close>

theorem wrapped_join_is_comma_join_witness:
  "serialize (RDS_EVENT_IDS_list app_props) = str ''RDS-EVENT-0091,RDS-EVENT-0042,RDS-EVENT-0197''
   \<and> Array_join (Some (str '','')) (map JStr (RDS_EVENT_IDS_list app_props))
       = str ''RDS-EVENT-0091,RDS-EVENT-0042,RDS-EVENT-0197''
   \<and> serialize (DB_SNAPSHOT_TYPES_list app_props) = str ''snapshot,snapshot,snapshot''"
proof -
  have "Array_join (Some (str '','')) (map JStr (RDS_EVENT_IDS_list app_props))
       = str ''RDS-EVENT-0091,RDS-EVENT-0042,RDS-EVENT-0197''"
    by (simp add: Array_join_def RDS_EVENT_IDS_list_def app_props_def str_def)
  moreover have "Array_join (Some (str '','')) (map JStr (DB_SNAPSHOT_TYPES_list app_props))
       = str ''snapshot,snapshot,snapshot''"
    by (simp add: Array_join_def DB_SNAPSHOT_TYPES_list_def DB_SNAPSHOT_TYPE_def app_props_def
        str_def)
  ultimately show ?thesis
    using wrapped_join_is_comma_join [of "[]" app_props] by simp
qed

end
